theory Spec2Isabelle
  imports Complex_Main
begin

section \<open>Numbers\<close>

text \<open>
  The numbers of the program are floating-point numbers: binary64 in JavaScript, and
  single precision (binary32) for the \<open>highp float\<close> of the shaders on the usual
  hardware. They are modelled as the reals they denote, in two readings. In the exact
  reading the arithmetic of the source is kept term by term and no result is rounded; a
  decimal literal such as \<open>31.9\<close> stands for the rational it denotes. In the rounded
  reading a function takes a rounding function \<open>rd\<close> and applies it to every literal and
  to the result of every operation, in the order the source evaluates them; with \<open>rd\<close>
  the identity it is the exact reading again. A function is given in the rounded
  reading where a property of it depends on the rounding.
\<close>

subsection \<open>Rounding to nearest, ties to even\<close>

text \<open>
  \<open>expo n x\<close> is the binary exponent of a positive \<open>x\<close>, the \<open>e\<close> with
  \<open>2^e \<le> x < 2^(e+1)\<close>, found in at most \<open>n\<close> halvings or doublings.
\<close>

fun expo :: "nat \<Rightarrow> real \<Rightarrow> int" where
  "expo 0 x = 0"
| "expo (Suc n) x =
     (if 2 \<le> x then expo n (x / 2) + 1 else if x < 1 then expo n (x * 2) - 1 else 0)"

definition pow2 :: "int \<Rightarrow> real" where
  "pow2 e = (if 0 \<le> e then 2 ^ nat e else 1 / 2 ^ nat (- e))"

text \<open>The integer nearest to \<open>y\<close>, the even one of the two when \<open>y\<close> lies half way.\<close>

definition rne :: "real \<Rightarrow> int" where
  "rne y =
     (let f = \<lfloor>y\<rfloor>; r = y - of_int f
      in if r < 1 / 2 then f else if 1 / 2 < r then f + 1 else if even f then f else f + 1)"

text \<open>
  The floating-point number with \<open>p\<close> significant bits and least exponent \<open>emin\<close> that
  is nearest to \<open>x\<close>. Below \<open>2^emin\<close> the spacing stays that of the least exponent
  (subnormal numbers). A magnitude too large for the format, which the machine rounds to
  an infinity, is outside the model; no number of the program comes near it.
\<close>

definition round_float :: "nat \<Rightarrow> int \<Rightarrow> real \<Rightarrow> real" where
  "round_float p emin x =
     (if x = 0 then 0
      else (let e = max (expo 1100 \<bar>x\<bar>) emin;
                q = pow2 (e - int p + 1)
            in q * of_int (rne (x / q))))"

definition binary64 :: "real \<Rightarrow> real" where
  "binary64 = round_float 53 (- 1022)"

definition binary32 :: "real \<Rightarrow> real" where
  "binary32 = round_float 24 (- 126)"

section \<open>The degradation curve\<close>

text \<open>The object returned by \<open>ShaderCalendar.getParams\<close>, field by field.\<close>

record visual_params =
  image_blur :: real
  uv_scale :: real
  depth_scale :: real
  rgb_scale :: real
  rgb_mix :: real
  src_weight :: real
  hard_level :: real
  hard_contrast :: real
  mask_level :: real
  mask_contrast :: real
  mask_weight :: real
  hard_weight :: real
  soft_weight :: real
  time_scale :: real
  map_blur :: real

text \<open>The object returned by \<open>DementiaSound.getSoundParams\<close>.\<close>

record sound_params =
  filterFrequency :: real
  filterQ :: real
  detuneAmount :: real
  detuneSpeed :: real
  reverbMix :: real
  reverbDecay :: real
  dryGain :: real
  melodyGain :: real
  vibratoDepth :: real
  vibratoSpeed :: real
  playbackRate :: real

text \<open>
  The three easing shapes, as both functions compute them from \<open>t = (day - 1) / 30\<close>:
  \<open>t * t * t\<close>, \<open>1 - Math.pow(1 - t, 2)\<close> and \<open>t * t * (3 - 2 * t)\<close>.
\<close>

definition day_t :: "real \<Rightarrow> real" where
  "day_t day = (day - 1) / 30"

definition easeIn :: "real \<Rightarrow> real" where
  "easeIn t = t * t * t"

definition easeOut :: "real \<Rightarrow> real" where
  "easeOut t = 1 - (1 - t) ^ 2"

definition easeMix :: "real \<Rightarrow> real" where
  "easeMix t = t * t * (3 - 2 * t)"

definition getParams :: "real \<Rightarrow> visual_params" where
  "getParams day =
     (let t = day_t day;
          easeIn = easeIn t;
          easeOut = easeOut t;
          easeMix = easeMix t
      in \<lparr> image_blur = 0.1 + easeIn * 31.9,
           uv_scale = 0.5 + easeMix * 3.5,
           depth_scale = 0.2 + easeIn * 3.8,
           rgb_scale = 0.3 + easeMix * 2.2,
           rgb_mix = 0.1 + easeOut * 0.85,
           src_weight = 6.0 - easeOut * 3.5,
           hard_level = 0.2 + easeMix * 2.5,
           hard_contrast = 0.98 - easeOut * 0.45,
           mask_level = 1.0 + easeOut * 2.0,
           mask_contrast = 0.9 - easeOut * 0.35,
           mask_weight = 0.8 - easeOut * 0.5,
           hard_weight = 0.5 + easeIn * 7.5,
           soft_weight = 0.3 + easeIn * 7.2,
           time_scale = 0.005 + easeOut * 0.095,
           map_blur = 2.0 + easeMix * 20.0 \<rparr>)"

definition getSoundParams :: "real \<Rightarrow> sound_params" where
  "getSoundParams day =
     (let t = day_t day;
          easeIn = easeIn t;
          easeOut = easeOut t;
          easeMix = easeMix t
      in \<lparr> filterFrequency = 12000 - easeOut * 8000,
           filterQ = 0.7,
           detuneAmount = 0 + easeMix * 5,
           detuneSpeed = 0.05 + easeOut * 0.15,
           reverbMix = 0.1 + easeIn * 0.65,
           reverbDecay = 0.5 + easeIn * 2.5,
           dryGain = 1.0 - easeOut * 0.5,
           melodyGain = 0.3 - easeOut * 0.1,
           vibratoDepth = 0.3 + easeMix * 0.7,
           vibratoSpeed = 1.5 + easeOut * 1.0,
           playbackRate = 1.0 - easeIn * 0.2 \<rparr>)"

text \<open>
  The two functions in the rounded reading. \<open>Math.pow(x, 2)\<close> is taken as the rounded
  square. The day is a number the format holds exactly.
\<close>

definition getParams_fl :: "(real \<Rightarrow> real) \<Rightarrow> real \<Rightarrow> visual_params" where
  "getParams_fl rd day =
     (let t = rd (rd (day - 1) / rd 30);
          easeIn = rd (rd (t * t) * t);
          easeOut = rd (rd 1 - rd (rd (rd 1 - t) ^ 2));
          easeMix = rd (rd (t * t) * rd (rd 3 - rd (rd 2 * t)))
      in \<lparr> image_blur = rd (rd 0.1 + rd (easeIn * rd 31.9)),
           uv_scale = rd (rd 0.5 + rd (easeMix * rd 3.5)),
           depth_scale = rd (rd 0.2 + rd (easeIn * rd 3.8)),
           rgb_scale = rd (rd 0.3 + rd (easeMix * rd 2.2)),
           rgb_mix = rd (rd 0.1 + rd (easeOut * rd 0.85)),
           src_weight = rd (rd 6.0 - rd (easeOut * rd 3.5)),
           hard_level = rd (rd 0.2 + rd (easeMix * rd 2.5)),
           hard_contrast = rd (rd 0.98 - rd (easeOut * rd 0.45)),
           mask_level = rd (rd 1.0 + rd (easeOut * rd 2.0)),
           mask_contrast = rd (rd 0.9 - rd (easeOut * rd 0.35)),
           mask_weight = rd (rd 0.8 - rd (easeOut * rd 0.5)),
           hard_weight = rd (rd 0.5 + rd (easeIn * rd 7.5)),
           soft_weight = rd (rd 0.3 + rd (easeIn * rd 7.2)),
           time_scale = rd (rd 0.005 + rd (easeOut * rd 0.095)),
           map_blur = rd (rd 2.0 + rd (easeMix * rd 20.0)) \<rparr>)"

definition getSoundParams_fl :: "(real \<Rightarrow> real) \<Rightarrow> real \<Rightarrow> sound_params" where
  "getSoundParams_fl rd day =
     (let t = rd (rd (day - 1) / rd 30);
          easeIn = rd (rd (t * t) * t);
          easeOut = rd (rd 1 - rd (rd (rd 1 - t) ^ 2));
          easeMix = rd (rd (t * t) * rd (rd 3 - rd (rd 2 * t)))
      in \<lparr> filterFrequency = rd (rd 12000 - rd (easeOut * rd 8000)),
           filterQ = rd 0.7,
           detuneAmount = rd (rd 0 + rd (easeMix * rd 5)),
           detuneSpeed = rd (rd 0.05 + rd (easeOut * rd 0.15)),
           reverbMix = rd (rd 0.1 + rd (easeIn * rd 0.65)),
           reverbDecay = rd (rd 0.5 + rd (easeIn * rd 2.5)),
           dryGain = rd (rd 1.0 - rd (easeOut * rd 0.5)),
           melodyGain = rd (rd 0.3 - rd (easeOut * rd 0.1)),
           vibratoDepth = rd (rd 0.3 + rd (easeMix * rd 0.7)),
           vibratoSpeed = rd (rd 1.5 + rd (easeOut * rd 1.0)),
           playbackRate = rd (rd 1.0 - rd (easeIn * rd 0.2)) \<rparr>)"

section \<open>GLSL values and built-in functions\<close>

text \<open>
  Vectors are tuples of reals. A \<open>sampler2D\<close> is the function \<open>texture2D\<close> computes
  from the bound texture: a colour for every coordinate (filtering and the clamp-to-edge
  wrap mode are part of that function).
\<close>

type_synonym vec2 = "real \<times> real"
type_synonym vec4 = "real \<times> real \<times> real \<times> real"
type_synonym sampler2D = "vec2 \<Rightarrow> vec4"

definition texture2D :: "sampler2D \<Rightarrow> vec2 \<Rightarrow> vec4" where
  "texture2D tex uv = tex uv"

fun map2v :: "(real \<Rightarrow> real) \<Rightarrow> vec2 \<Rightarrow> vec2" where
  "map2v f (x, y) = (f x, f y)"

fun zip2v :: "(real \<Rightarrow> real \<Rightarrow> real) \<Rightarrow> vec2 \<Rightarrow> vec2 \<Rightarrow> vec2" where
  "zip2v f (x, y) (x', y') = (f x x', f y y')"



fun map4v :: "(real \<Rightarrow> real) \<Rightarrow> vec4 \<Rightarrow> vec4" where
  "map4v f (x, y, z, w) = (f x, f y, f z, f w)"

fun zip4v :: "(real \<Rightarrow> real \<Rightarrow> real) \<Rightarrow> vec4 \<Rightarrow> vec4 \<Rightarrow> vec4" where
  "zip4v f (x, y, z, w) (x', y', z', w') = (f x x', f y y', f z z', f w w')"

fun vz :: "vec4 \<Rightarrow> real" where "vz (x, y, z, w) = z"
fun vw :: "vec4 \<Rightarrow> real" where "vw (x, y, z, w) = w"

fun xy :: "vec4 \<Rightarrow> vec2" where "xy (x, y, z, w) = (x, y)"

definition floorf :: "real \<Rightarrow> real" where
  "floorf x = of_int \<lfloor>x\<rfloor>"


text \<open>\<open>mix(x, y, a) = x * (1 - a) + y * a\<close>.\<close>

definition mixf :: "real \<Rightarrow> real \<Rightarrow> real \<Rightarrow> real" where
  "mixf x y a = x * (1 - a) + y * a"

definition mix4 :: "vec4 \<Rightarrow> vec4 \<Rightarrow> real \<Rightarrow> vec4" where
  "mix4 x y a = zip4v (\<lambda>p q. mixf p q a) x y"







definition add2 :: "vec2 \<Rightarrow> vec2 \<Rightarrow> vec2" where "add2 = zip2v (+)"
definition mul2 :: "vec2 \<Rightarrow> vec2 \<Rightarrow> vec2" where "mul2 = zip2v (*)"
definition div2 :: "vec2 \<Rightarrow> vec2 \<Rightarrow> vec2" where "div2 = zip2v (/)"
definition scale2 :: "vec2 \<Rightarrow> real \<Rightarrow> vec2" where "scale2 v k = map2v (\<lambda>c. c * k) v"
definition adds2 :: "vec2 \<Rightarrow> real \<Rightarrow> vec2" where "adds2 v k = map2v (\<lambda>c. c + k) v"


definition add4 :: "vec4 \<Rightarrow> vec4 \<Rightarrow> vec4" where "add4 = zip4v (+)"
definition div4 :: "vec4 \<Rightarrow> real \<Rightarrow> vec4" where "div4 v k = map4v (\<lambda>c. c / k) v"

section \<open>The shaders\<close>



text \<open>
  \<open>blur\<close>, declared in the blur, map and displace shaders with the same body; the
  radius uniform (\<open>size\<close> in the blur shader, \<open>blur_size\<close> in the other two) is the
  first argument. The two \<open>for\<close> loops run over \<open>d = 0 .. Directions - 1\<close> and
  \<open>i = 1 .. Quality\<close>.
\<close>

definition Pi2 :: real where "Pi2 = 6.28318530718"
definition Directions :: nat where "Directions = 16"
definition Quality :: nat where "Quality = 3"

definition blur :: "real \<Rightarrow> sampler2D \<Rightarrow> vec2 \<Rightarrow> vec2 \<Rightarrow> vec4" where
  "blur Size tex uv res =
     (let radius = (Size / fst res, Size / snd res);
          Color = texture2D tex uv;
          Color = fold (\<lambda>d Color.
                    let angle = Pi2 * real d / real Directions;
                        dir = (cos angle, sin angle)
                    in fold (\<lambda>i Color.
                         let offset = real i / real Quality
                         in add4 Color (texture2D tex (add2 uv (scale2 (mul2 dir radius) offset))))
                       [1 ..< Quality + 1] Color)
                  [0 ..< Directions] Color
      in div4 Color (real (Quality * Directions + 1)))"


text \<open>
  \<open>blur\<close> in the rounded reading. The accuracy of the built-in \<open>cos\<close> and \<open>sin\<close> is
  left to the implementation; they are taken as the rounded cosine and sine.
\<close>

definition blur_fl :: "(real \<Rightarrow> real) \<Rightarrow> real \<Rightarrow> sampler2D \<Rightarrow> vec2 \<Rightarrow> vec2 \<Rightarrow> vec4" where
  "blur_fl rd Size tex uv res =
     (let radius = (rd (Size / fst res), rd (Size / snd res));
          Color = texture2D tex uv;
          Color = fold (\<lambda>d Color.
                    let angle = rd (rd (rd Pi2 * real d) / real Directions);
                        dir = (rd (cos angle), rd (sin angle))
                    in fold (\<lambda>i Color.
                         let offset = rd (real i / real Quality)
                         in map4v rd (add4 Color
                              (texture2D tex
                                 (map2v rd (add2 uv
                                    (map2v rd (scale2 (map2v rd (mul2 dir radius)) offset)))))))
                       [1 ..< Quality + 1] Color)
                  [0 ..< Directions] Color
      in map4v rd (div4 Color (real (Quality * Directions + 1))))"

text \<open>
  The mean of 49 copies of a colour as the loop computes it: 48 additions to the colour
  itself, then the division by 49, each rounded.
\<close>

definition mean49 :: "(real \<Rightarrow> real) \<Rightarrow> vec4 \<Rightarrow> vec4" where
  "mean49 rd c = map4v rd (div4 (((\<lambda>Color. map4v rd (add4 Color c)) ^^ 48) c) 49)"

text \<open>
  The displace shader's \<open>main\<close>; \<open>source_tex\<close>, \<open>image_tex\<close> and \<open>map_tex\<close> are its
  samplers \<open>source\<close>, \<open>image\<close> and \<open>map\<close>, and a name ending in \<open>_u\<close> is the uniform
  of that name.
\<close>

definition displace_main ::
  "sampler2D \<Rightarrow> sampler2D \<Rightarrow> sampler2D \<Rightarrow> vec2 \<Rightarrow> real \<Rightarrow> real \<Rightarrow> real \<Rightarrow> vec2 \<Rightarrow> vec4" where
  "displace_main source_tex image_tex map_tex res hard_weight_u soft_weight_u blur_size_u uv =
     (let source_color = texture2D source_tex uv;
          map_color = texture2D map_tex uv;
          map_blur = blur blur_size_u map_tex uv res;
          dsp_hard = div2 (scale2 (scale2 (adds2 (xy map_blur) (- 0.5)) hard_weight_u) 2.0) res;
          dsp_hard = div2 (map2v floorf (adds2 (mul2 dsp_hard res) 0.5)) res;
          dsp_soft = div2 (scale2 (scale2 (adds2 (xy map_blur) (- 0.5)) soft_weight_u) 2.0) res;
          hard_mask = vz map_blur;
          source_mask = vw map_color;
          displaced_hard = texture2D image_tex (add2 uv dsp_hard);
          displaced_soft = texture2D image_tex (add2 uv dsp_soft);
          displaced = mix4 displaced_hard displaced_soft hard_mask;
          result = mix4 displaced source_color (1.0 - source_mask)
      in result)"












section \<open>Exceptions\<close>

text \<open>
  A method that can throw returns an outcome: \<open>Returns s\<close> when it ran to its end and
  left the object in state \<open>s\<close>, \<open>Throws e s\<close> when the exception \<open>e\<close> left it and
  the assignments made before the throw left the object in state \<open>s\<close>.
\<close>

datatype js_error = TypeError | ImageLoadError | DOMException

datatype 's outcome = Returns 's | Throws js_error 's

fun state_of :: "'s outcome \<Rightarrow> 's" where
  "state_of (Returns s) = s"
| "state_of (Throws e s) = s"

section \<open>ShaderCalendar\<close>

text \<open>
  A decoded \<open>Image\<close> element: its resolved \<open>src\<close>, its size and its pixels as the
  texture uploaded from it samples them.
\<close>

record html_image =
  img_src :: string
  img_width :: nat
  img_height :: nat
  img_pixels :: sampler2D

text \<open>What \<open>createFramebuffer\<close> returns: a framebuffer with its colour texture.\<close>

record framebuffer =
  fb_width :: nat
  fb_height :: nat
  fb_texture :: sampler2D

datatype fbo_key = FboSource | FboImage | FboMap | FboDisplace

text \<open>
  The fields of a \<open>ShaderCalendar\<close>. \<open>gl\<close> tells whether the constructor obtained a
  WebGL context; \<open>screen\<close> is the default framebuffer (the canvas). \<open>width\<close> and
  \<open>height\<close> are unset until \<open>createTexture\<close> assigns them (0 stands for unset; they are
  read only after \<open>createTexture\<close>). A \<open>null\<close> entry of \<open>fbos\<close> is \<open>None\<close>.
\<close>

record ShaderCalendar =
  gl :: bool
  time :: real
  animationId :: "nat option"
  currentDay :: real
  currentImage :: "html_image option"
  seed :: real
  sourceTexture :: "sampler2D option"
  lastImageSrc :: "string option"
  width :: nat
  height :: nat
  fbos :: "fbo_key \<Rightarrow> framebuffer option"
  screen :: sampler2D







text \<open>
  \<open>draw(program, fbo, uniforms)\<close>: the fragment shader \<open>frag\<close> (the program with its
  uniforms set) is run for every coordinate of the target, which is the framebuffer
  stored under \<open>target\<close>, or the screen when \<open>fbo\<close> is \<open>null\<close>.
\<close>

definition draw :: "sampler2D \<Rightarrow> fbo_key option \<Rightarrow> ShaderCalendar \<Rightarrow> ShaderCalendar" where
  "draw frag target s =
     (case target of
        None \<Rightarrow> s\<lparr> screen := frag \<rparr>
      | Some key \<Rightarrow>
          (case fbos s key of
             None \<Rightarrow> s\<lparr> screen := frag \<rparr>
           | Some fbo \<Rightarrow> s\<lparr> fbos := (fbos s)(key := Some (fbo\<lparr> fb_texture := frag \<rparr>)) \<rparr>))"








definition setDay :: "real \<Rightarrow> ShaderCalendar \<Rightarrow> ShaderCalendar" where
  "setDay day s = s\<lparr> currentDay := day \<rparr>"




text \<open>The feedback accumulator and the clean source, as the textures of their framebuffers.\<close>

definition workingField :: "ShaderCalendar \<Rightarrow> sampler2D option" where
  "workingField s = map_option fb_texture (fbos s FboImage)"

definition sourceField :: "ShaderCalendar \<Rightarrow> sampler2D option" where
  "sourceField s = map_option fb_texture (fbos s FboSource)"

text \<open>
  In every reachable state with a source texture, the image is kept, the context exists
  and the four framebuffers are allocated.
\<close>

definition fbos_ready :: "ShaderCalendar \<Rightarrow> bool" where
  "fbos_ready s =
     (if sourceTexture s = None then True
      else currentImage s \<noteq> None \<and> gl s \<and> fbos s FboSource \<noteq> None \<and> fbos s FboImage \<noteq> None
           \<and> fbos s FboMap \<noteq> None \<and> fbos s FboDisplace \<noteq> None)"


section \<open>DementiaSound\<close>

text \<open>
  An \<open>AudioParam\<close>: the value last assigned to \<open>.value\<close> and the automation events
  scheduled on it, oldest first. A linear ramp is recorded with its target, its end time
  and the context's \<open>currentTime\<close> at the call.
\<close>

datatype automation_event =
  LinearRampToValueAtTime real real real
| SetValueAtTime real real

record AudioParam =
  param_value :: real
  param_events :: "automation_event list"

definition newParam :: "real \<Rightarrow> AudioParam" where
  "newParam v = \<lparr> param_value = v, param_events = [] \<rparr>"

definition linearRampToValueAtTime :: "real \<Rightarrow> real \<Rightarrow> real \<Rightarrow> AudioParam \<Rightarrow> AudioParam" where
  "linearRampToValueAtTime v endTime now p =
     p\<lparr> param_events := param_events p @ [LinearRampToValueAtTime v endTime now] \<rparr>"

text \<open>
  The value the audio engine gives a parameter at time \<open>t\<close>, after the automation rules
  of the Web Audio API: with no event the parameter keeps its value; a linear ramp
  interpolates from the previous event (or, when it is the first event, from the
  parameter's value at the time of the call) to its target at its end time, and the
  target is held afterwards.
\<close>

fun automation :: "real \<Rightarrow> real \<Rightarrow> automation_event list \<Rightarrow> real \<Rightarrow> real" where
  "automation v0 t0 [] t = v0"
| "automation v0 t0 (SetValueAtTime v1 t1 # es) t =
     (if t < t1 then v0 else automation v1 t1 es t)"
| "automation v0 t0 (LinearRampToValueAtTime v1 t1 c # es) t =
     (if t1 \<le> t then automation v1 t1 es t
      else if t \<le> t0 then v0
      else v0 + (v1 - v0) * ((t - t0) / (t1 - t0)))"

definition valueAtTime :: "AudioParam \<Rightarrow> real \<Rightarrow> real" where
  "valueAtTime p t =
     (case param_events p of
        [] \<Rightarrow> param_value p
      | SetValueAtTime v1 t1 # es \<Rightarrow> automation (param_value p) t1 (param_events p) t
      | LinearRampToValueAtTime v1 t1 c # es \<Rightarrow> automation (param_value p) c (param_events p) t)"

text \<open>The audio nodes, by the parameters and the start and stop times the program sets.\<close>

record OscillatorNode =
  frequency :: AudioParam
  detune :: AudioParam
  startTime :: "real option"
  stopTime :: "real option"

record BiquadFilterNode =
  filter_frequency :: AudioParam
  filter_Q :: AudioParam

record ConvolverNode =
  buffer_length :: real
  buffer_data :: "nat \<Rightarrow> nat \<Rightarrow> real"

record AudioContext =
  sampleRate :: real
  suspended :: bool

text \<open>An entry of \<open>this.oscillators\<close>, a pad voice; a gain node is its \<open>gain\<close> parameter.\<close>

record oscData =
  v_osc :: OscillatorNode
  v_lfo :: OscillatorNode
  v_gain :: AudioParam
  v_filter :: BiquadFilterNode
  v_reverbGain :: AudioParam
  v_lfoGain :: AudioParam
  v_baseFreq :: real
  v_detuneOffset :: real
  v_isPad :: bool

text \<open>
  The fields of a \<open>DementiaSound\<close>. \<open>currentDay_snd\<close> is its \<open>currentDay\<close>.
  \<open>reverbGain\<close> and \<open>baseFrequencies\<close> are not set by the constructor: they are
  \<open>undefined\<close> (\<open>None\<close>) until some method assigns them.
\<close>

record DementiaSound =
  audioContext :: "AudioContext option"
  masterGain :: "AudioParam option"
  oscillators :: "oscData list"
  filters :: "BiquadFilterNode list"
  reverbNode :: "ConvolverNode option"
  noiseNode :: "AudioParam option"
  isPlaying :: bool
  currentDay_snd :: real
  melodyNotes :: "(real \<times> real) list"
  padFrequencies :: "real list"
  reverbGain :: "AudioParam option"
  baseFrequencies :: "real list option"

definition sound_constructor :: DementiaSound where
  "sound_constructor =
     \<lparr> audioContext = None, masterGain = None, oscillators = [], filters = [],
       reverbNode = None, noiseNode = None, isPlaying = False, currentDay_snd = 1,
       melodyNotes = [(261.63, 2.0), (329.63, 1.5), (392.00, 1.5), (329.63, 1.0),
                      (293.66, 2.0), (261.63, 2.0), (220.00, 3.0), (261.63, 2.5)],
       padFrequencies = [130.81, 164.81, 196.00],
       reverbGain = None, baseFrequencies = None \<rparr>"

text \<open>
  \<open>createReverb\<close>; \<open>rnd channel i\<close> is the value of the \<open>Math.random()\<close> call that
  fills sample \<open>i\<close> of that channel.
\<close>

definition createReverb :: "(nat \<Rightarrow> nat \<Rightarrow> real) \<Rightarrow> AudioContext \<Rightarrow> DementiaSound \<Rightarrow> DementiaSound" where
  "createReverb rnd ctx s =
     (let length_b = sampleRate ctx * 3;
          impulse = (\<lambda>channel i. (rnd channel i * 2 - 1) * (1 - real i / length_b) ^ 2)
      in s\<lparr> reverbNode := Some \<lparr> buffer_length = length_b, buffer_data = impulse \<rparr>,
             reverbGain := Some (newParam 1) \<rparr>)"

text \<open>
  What the browser does when \<open>init\<close> asks for an audio context: the constructor throws,
  or it returns a context with a sample rate that is running, or suspended; a suspended
  one is resumed, which succeeds or is rejected.
\<close>

datatype context_env =
  CreateThrows
| Running real
| SuspendedResumes real
| SuspendedRejects real

text \<open>\<open>init\<close>; its \<open>try\<close> block catches and logs every exception.\<close>

definition init :: "context_env \<Rightarrow> (nat \<Rightarrow> nat \<Rightarrow> real) \<Rightarrow> DementiaSound \<Rightarrow> DementiaSound" where
  "init env rnd s =
     (if audioContext s \<noteq> None then s
      else case env of
             CreateThrows \<Rightarrow> s
           | SuspendedRejects rate \<Rightarrow>
               s\<lparr> audioContext := Some \<lparr> sampleRate = rate, suspended = True \<rparr> \<rparr>
           | SuspendedResumes rate \<Rightarrow>
               (let ctx = \<lparr> sampleRate = rate, suspended = False \<rparr>;
                    s = s\<lparr> audioContext := Some ctx, masterGain := Some (newParam 0.2) \<rparr>
                in createReverb rnd ctx s)
           | Running rate \<Rightarrow>
               (let ctx = \<lparr> sampleRate = rate, suspended = False \<rparr>;
                    s = s\<lparr> audioContext := Some ctx, masterGain := Some (newParam 0.2) \<rparr>
                in createReverb rnd ctx s))"

text \<open>
  The callback \<open>start\<close> runs for each pad frequency, as a loop over the list; \<open>n\<close> is
  \<open>this.padFrequencies.length\<close>, \<open>index\<close> the position, \<open>rnd index\<close> the value of the
  \<open>Math.random()\<close> call of that voice. Connecting a node to \<open>null\<close> throws.
\<close>

fun createPads ::
  "sound_params \<Rightarrow> real \<Rightarrow> (nat \<Rightarrow> real) \<Rightarrow> nat \<Rightarrow> nat \<Rightarrow> real list \<Rightarrow> DementiaSound
     \<Rightarrow> DementiaSound outcome" where
  "createPads params now rnd n index [] s = Returns s"
| "createPads params now rnd n index (freq # rest) s =
     (let osc = \<lparr> frequency = newParam freq, detune = newParam 0,
                  startTime = Some now, stopTime = None \<rparr>;
          lfo = \<lparr> frequency = newParam (vibratoSpeed params * 0.5), detune = newParam 0,
                  startTime = Some now, stopTime = None \<rparr>;
          lfoGain = newParam (vibratoDepth params * 0.5);
          filter_n = \<lparr> filter_frequency = newParam (filterFrequency params),
                       filter_Q = newParam (filterQ params) \<rparr>;
          volume = 0.06 / real n;
          gain = linearRampToValueAtTime (volume * dryGain params) (now + 3.0) now (newParam 0)
      in case masterGain s of
           None \<Rightarrow> Throws TypeError s
         | Some mg \<Rightarrow>
             (let reverbGain_n = newParam (reverbMix params * 0.7)
              in case reverbNode s of
                   None \<Rightarrow> Throws TypeError s
                 | Some rn \<Rightarrow>
                     createPads params now rnd n (Suc index) rest
                       (s\<lparr> oscillators := oscillators s @
                             [\<lparr> v_osc = osc, v_lfo = lfo, v_gain = gain, v_filter = filter_n,
                                v_reverbGain = reverbGain_n, v_lfoGain = lfoGain,
                                v_baseFreq = freq, v_detuneOffset = rnd index * pi * 2,
                                v_isPad = True \<rparr>] \<rparr>)))"

text \<open>
  \<open>modulate\<close>, the body \<open>startDetuneModulation\<close> runs once and every animation frame
  runs again; \<open>now\<close> is \<open>audioContext.currentTime\<close>.
\<close>

definition modulate :: "real \<Rightarrow> DementiaSound \<Rightarrow> DementiaSound" where
  "modulate now s =
     (if \<not> isPlaying s then s
      else (let params = getSoundParams (currentDay_snd s)
            in s\<lparr> oscillators :=
                   map (\<lambda>oscData.
                          let drift = sin (now * detuneSpeed params + v_detuneOffset oscData)
                                        * detuneAmount params
                          in oscData\<lparr> v_osc := (v_osc oscData)
                                        \<lparr> detune := (detune (v_osc oscData))\<lparr> param_value := drift \<rparr> \<rparr> \<rparr>)
                       (oscillators s) \<rparr>))"

text \<open>
  The callback \<open>updateDay\<close> runs for each entry of \<open>this.oscillators\<close>, as a loop over
  the list: the result is the exception that stopped the loop, if any, and the entries
  as the loop left them. \<open>this.baseFrequencies.length\<close> throws when the field is
  \<open>undefined\<close>; with an empty array the volume is not finite and the ramp call throws.
\<close>

fun updateVoices ::
  "sound_params \<Rightarrow> real \<Rightarrow> real \<Rightarrow> real list option \<Rightarrow> oscData list
     \<Rightarrow> js_error option \<times> oscData list" where
  "updateVoices params now transitionTime bf [] = (None, [])"
| "updateVoices params now transitionTime bf (oscData # rest) =
     (let oscData = oscData\<lparr> v_filter := (v_filter oscData)
            \<lparr> filter_frequency := linearRampToValueAtTime (filterFrequency params)
                                     (now + transitionTime) now
                                     (filter_frequency (v_filter oscData)) \<rparr> \<rparr>;
          oscData = oscData\<lparr> v_filter := (v_filter oscData)
            \<lparr> filter_Q := linearRampToValueAtTime (filterQ params) (now + transitionTime) now
                             (filter_Q (v_filter oscData)) \<rparr> \<rparr>
      in case bf of
           None \<Rightarrow> (Some TypeError, oscData # rest)
         | Some baseFrequencies_v \<Rightarrow>
             if baseFrequencies_v = [] then (Some TypeError, oscData # rest)
             else
               (let volume = 0.15 / real (length baseFrequencies_v);
                    oscData = oscData\<lparr> v_gain := linearRampToValueAtTime (volume * dryGain params)
                                           (now + transitionTime) now (v_gain oscData) \<rparr>;
                    oscData = oscData\<lparr> v_reverbGain := linearRampToValueAtTime (reverbMix params)
                                           (now + transitionTime) now (v_reverbGain oscData) \<rparr>;
                    oscData = oscData\<lparr> v_lfo := (v_lfo oscData)
                      \<lparr> frequency := linearRampToValueAtTime (vibratoSpeed params)
                                        (now + transitionTime) now (frequency (v_lfo oscData)) \<rparr> \<rparr>;
                    oscData = oscData\<lparr> v_lfoGain := linearRampToValueAtTime (vibratoDepth params)
                                           (now + transitionTime) now (v_lfoGain oscData) \<rparr>
                in case updateVoices params now transitionTime bf rest of
                     (e, rest') \<Rightarrow> (e, oscData # rest')))"

text \<open>
  \<open>updateDay\<close>; the two tests of its guard are made in the order \<open>||\<close> makes them.
  \<open>getSoundParams\<close> returns no \<open>noiseLevel\<close>, so the ramp on a noise
  node would throw; reading \<open>this.reverbGain.gain\<close> throws when \<open>reverbGain\<close> is
  \<open>undefined\<close>.
\<close>

definition updateDay :: "real \<Rightarrow> real \<Rightarrow> DementiaSound \<Rightarrow> DementiaSound outcome" where
  "updateDay day now s0 =
     (if \<not> isPlaying s0 then Returns s0
      else if day = currentDay_snd s0 then Returns s0
      else
        (let s = s0\<lparr> currentDay_snd := day \<rparr>;
             params = getSoundParams day;
             transitionTime = 1.0
         in case updateVoices params now transitionTime (baseFrequencies s) (oscillators s) of
              (Some e, voices) \<Rightarrow> Throws e (s\<lparr> oscillators := voices \<rparr>)
            | (None, voices) \<Rightarrow>
                (let s = s\<lparr> oscillators := voices \<rparr>
                 in case noiseNode s of
                      Some noise \<Rightarrow> Throws TypeError s
                    | None \<Rightarrow>
                        (case reverbGain s of
                           None \<Rightarrow> Throws TypeError s
                         | Some rg \<Rightarrow>
                             Returns (s\<lparr> reverbGain :=
                                Some (linearRampToValueAtTime (reverbDecay params)
                                        (now + transitionTime) now rg) \<rparr>)))))"

text \<open>
  \<open>start\<close>; \<open>resume_ok\<close> tells whether resuming a suspended context succeeds. The
  notes \<open>playMelody\<close> creates are held by no field of the object (no later call reaches
  them), so \<open>playMelody\<close> leaves the fields as they are.
\<close>

definition start ::
  "real \<Rightarrow> real \<Rightarrow> bool \<Rightarrow> (nat \<Rightarrow> real) \<Rightarrow> DementiaSound \<Rightarrow> DementiaSound outcome" where
  "start day now resume_ok rnd s0 =
     (if isPlaying s0 then updateDay day now s0
      else case audioContext s0 of
             None \<Rightarrow> Returns s0
           | Some ctx \<Rightarrow>
               if suspended ctx \<and> \<not> resume_ok then Throws DOMException s0
               else
                 (let s = s0\<lparr> audioContext := Some (ctx\<lparr> suspended := False \<rparr>) \<rparr>;
                      s = s\<lparr> currentDay_snd := day, isPlaying := True \<rparr>;
                      params = getSoundParams day
                  in case createPads params now rnd (length (padFrequencies s)) 0
                            (padFrequencies s) s of
                       Throws e s' \<Rightarrow> Throws e s'
                     | Returns s' \<Rightarrow> Returns (modulate now s')))"

text \<open>
  \<open>stop\<close>: the voices are faded out and then dropped from \<open>this.oscillators\<close>, so
  their fade-out ramps leave no trace in the fields.
\<close>

definition stop :: "real \<Rightarrow> DementiaSound \<Rightarrow> DementiaSound" where
  "stop now s =
     (if \<not> isPlaying s then s
      else (let fadeTime = 2.0;
                s = s\<lparr> noiseNode := map_option (linearRampToValueAtTime 0 (now + fadeTime) now)
                                      (noiseNode s) \<rparr>
            in s\<lparr> oscillators := [], isPlaying := False \<rparr>))"

definition toggle ::
  "real \<Rightarrow> real \<Rightarrow> bool \<Rightarrow> (nat \<Rightarrow> real) \<Rightarrow> DementiaSound \<Rightarrow> DementiaSound outcome" where
  "toggle day now resume_ok rnd s =
     (if isPlaying s then Returns (stop now s) else start day now resume_ok rnd s)"

definition setVolume :: "real \<Rightarrow> DementiaSound \<Rightarrow> DementiaSound" where
  "setVolume volume s =
     (case masterGain s of
        None \<Rightarrow> s
      | Some mg \<Rightarrow> s\<lparr> masterGain := Some (mg\<lparr> param_value := max 0 (min 1 volume) \<rparr>) \<rparr>)"

text \<open>
  The states a \<open>DementiaSound\<close> can be in: what the constructor builds, and what any
  call of a method or of the animation-frame callback leaves, whether it returned or
  threw.
\<close>

inductive sound_reachable :: "DementiaSound \<Rightarrow> bool" where
  sr_constructor: "sound_reachable sound_constructor"
| sr_init: "sound_reachable s \<Longrightarrow> sound_reachable (init env rnd2 s)"
| sr_start: "sound_reachable s \<Longrightarrow> sound_reachable (state_of (start day now resume_ok rnd s))"
| sr_modulate: "sound_reachable s \<Longrightarrow> sound_reachable (modulate now s)"
| sr_updateDay: "sound_reachable s \<Longrightarrow> sound_reachable (state_of (updateDay day now s))"
| sr_stop: "sound_reachable s \<Longrightarrow> sound_reachable (stop now s)"
| sr_toggle: "sound_reachable s \<Longrightarrow> sound_reachable (state_of (toggle day now resume_ok rnd s))"
| sr_setVolume: "sound_reachable s \<Longrightarrow> sound_reachable (setVolume volume s)"

text \<open>What holds of the fields in every reachable state.\<close>

definition sound_inv :: "DementiaSound \<Rightarrow> bool" where
  "sound_inv s =
     (baseFrequencies s = None \<and> noiseNode s = None \<and> padFrequencies s \<noteq> []
      \<and> (if isPlaying s then audioContext s \<noteq> None else oscillators s = [])
      \<and> (if masterGain s = None then reverbGain s = None
          else audioContext s \<noteq> None \<and> reverbNode s \<noteq> None \<and> reverbGain s \<noteq> None)
      \<and> (if isPlaying s \<and> masterGain s \<noteq> None then oscillators s \<noteq> [] else True))"

section \<open>Properties of the degradation curve\<close>

lemma eases_at_day_1: "easeIn (day_t 1) = 0" "easeOut (day_t 1) = 0" "easeMix (day_t 1) = 0"
  by (simp_all add: day_t_def easeIn_def easeOut_def easeMix_def)

lemma eases_at_day_31: "easeIn (day_t 31) = 1" "easeOut (day_t 31) = 1" "easeMix (day_t 31) = 1"
  by (simp_all add: day_t_def easeIn_def easeOut_def easeMix_def)


lemma day_t_bounds:
  "d \<le> e \<Longrightarrow> day_t d \<le> day_t e" "1 \<le> d \<Longrightarrow> 0 \<le> day_t d" "e \<le> 31 \<Longrightarrow> day_t e \<le> 1"
  by (simp_all add: day_t_def)

lemma easeIn_mono:
  assumes "0 \<le> a" "a \<le> b"
  shows "easeIn a \<le> easeIn b"
proof -
  have "a ^ 3 \<le> b ^ 3" using assms by (rule_tac power_mono)
  then show ?thesis by (simp add: easeIn_def power3_eq_cube)
qed

lemma easeOut_mono:
  assumes "a \<le> b" "b \<le> 1"
  shows "easeOut a \<le> easeOut b"
proof -
  have "(1 - b) ^ 2 \<le> (1 - a) ^ 2" using assms by (intro power_mono) simp_all
  then show ?thesis by (simp add: easeOut_def)
qed

lemma easeMix_mono:
  assumes "0 \<le> a" "a \<le> b" "b \<le> 1"
  shows "easeMix a \<le> easeMix b"
proof -
  have ab: "a * b \<le> a" "a * b \<le> b" "a * a \<le> a" "b * b \<le> b"
    using assms by (simp_all add: mult_left_le mult_left_le_one_le mult_right_le_one_le)
  then have "0 \<le> 3 * (a + b) - 2 * (a * a + a * b + b * b)" by simp
  moreover have "0 \<le> b - a" using assms by simp
  ultimately have "0 \<le> (b - a) * (3 * (a + b) - 2 * (a * a + a * b + b * b))"
    by simp
  also have "\<dots> = easeMix b - easeMix a"
    by (simp add: easeMix_def algebra_simps)
  finally show ?thesis by simp
qed

text \<open>
  Claim C2. Over the integer days 1 to 31 every parameter of both curves is monotonic in
  the day, in the direction of its endpoints: for days \<open>d \<le> e\<close> in that range, a
  parameter whose day-31 value exceeds its day-1 value does not decrease from \<open>d\<close> to
  \<open>e\<close>, and every other parameter (\<open>src_weight\<close>, \<open>hard_contrast\<close>, \<open>mask_contrast\<close>,
  \<open>mask_weight\<close>, \<open>filterFrequency\<close>, the constant \<open>filterQ\<close>, \<open>dryGain\<close>,
  \<open>melodyGain\<close>, \<open>playbackRate\<close>) does not increase.
\<close>

theorem C2_curve_monotone:
  fixes d e :: int
  assumes "1 \<le> d" "d \<le> e" "e \<le> 31"
  shows "image_blur (getParams (real_of_int d)) \<le> image_blur (getParams (real_of_int e))
    \<and> uv_scale (getParams (real_of_int d)) \<le> uv_scale (getParams (real_of_int e))
    \<and> depth_scale (getParams (real_of_int d)) \<le> depth_scale (getParams (real_of_int e))
    \<and> rgb_scale (getParams (real_of_int d)) \<le> rgb_scale (getParams (real_of_int e))
    \<and> rgb_mix (getParams (real_of_int d)) \<le> rgb_mix (getParams (real_of_int e))
    \<and> src_weight (getParams (real_of_int d)) \<ge> src_weight (getParams (real_of_int e))
    \<and> hard_level (getParams (real_of_int d)) \<le> hard_level (getParams (real_of_int e))
    \<and> hard_contrast (getParams (real_of_int d)) \<ge> hard_contrast (getParams (real_of_int e))
    \<and> mask_level (getParams (real_of_int d)) \<le> mask_level (getParams (real_of_int e))
    \<and> mask_contrast (getParams (real_of_int d)) \<ge> mask_contrast (getParams (real_of_int e))
    \<and> mask_weight (getParams (real_of_int d)) \<ge> mask_weight (getParams (real_of_int e))
    \<and> hard_weight (getParams (real_of_int d)) \<le> hard_weight (getParams (real_of_int e))
    \<and> soft_weight (getParams (real_of_int d)) \<le> soft_weight (getParams (real_of_int e))
    \<and> time_scale (getParams (real_of_int d)) \<le> time_scale (getParams (real_of_int e))
    \<and> map_blur (getParams (real_of_int d)) \<le> map_blur (getParams (real_of_int e))
    \<and> filterFrequency (getSoundParams (real_of_int d)) \<ge> filterFrequency (getSoundParams (real_of_int e))
    \<and> filterQ (getSoundParams (real_of_int d)) \<ge> filterQ (getSoundParams (real_of_int e))
    \<and> detuneAmount (getSoundParams (real_of_int d)) \<le> detuneAmount (getSoundParams (real_of_int e))
    \<and> detuneSpeed (getSoundParams (real_of_int d)) \<le> detuneSpeed (getSoundParams (real_of_int e))
    \<and> reverbMix (getSoundParams (real_of_int d)) \<le> reverbMix (getSoundParams (real_of_int e))
    \<and> reverbDecay (getSoundParams (real_of_int d)) \<le> reverbDecay (getSoundParams (real_of_int e))
    \<and> dryGain (getSoundParams (real_of_int d)) \<ge> dryGain (getSoundParams (real_of_int e))
    \<and> melodyGain (getSoundParams (real_of_int d)) \<ge> melodyGain (getSoundParams (real_of_int e))
    \<and> vibratoDepth (getSoundParams (real_of_int d)) \<le> vibratoDepth (getSoundParams (real_of_int e))
    \<and> vibratoSpeed (getSoundParams (real_of_int d)) \<le> vibratoSpeed (getSoundParams (real_of_int e))
    \<and> playbackRate (getSoundParams (real_of_int d)) \<ge> playbackRate (getSoundParams (real_of_int e))"
proof -
  let ?a = "day_t (real_of_int d)" and ?b = "day_t (real_of_int e)"
  have t: "0 \<le> ?a" "?a \<le> ?b" "?b \<le> 1"
    using assms by (simp_all add: day_t_bounds)
  have I: "easeIn ?a \<le> easeIn ?b" using t by (simp add: easeIn_mono)
  have O: "easeOut ?a \<le> easeOut ?b" using t by (simp add: easeOut_mono)
  have M: "easeMix ?a \<le> easeMix ?b" using t by (simp add: easeMix_mono)
  show ?thesis using I O M
    by (simp add: getParams_def getSoundParams_def Let_def)
qed

text \<open>The monotonicity theorem at the days 3 and 17.\<close>

theorem C2_curve_monotone_witness:
  "(1::int) \<le> 3 \<and> (3::int) \<le> 17 \<and> (17::int) \<le> 31
   \<and> image_blur (getParams 3) \<le> image_blur (getParams 17)
   \<and> src_weight (getParams 3) \<ge> src_weight (getParams 17)
   \<and> filterFrequency (getSoundParams 3) \<ge> filterFrequency (getSoundParams 17)
   \<and> reverbMix (getSoundParams 3) \<le> reverbMix (getSoundParams 17)"
proof -
  have h: "(1::int) \<le> 3" "(3::int) \<le> 17" "(17::int) \<le> 31" by simp_all
  from C2_curve_monotone [OF h] h show ?thesis by simp
qed

section \<open>Properties of the shaders\<close>






lemma mix4_same: "mix4 c c a = c"
  by (cases c) (simp add: mix4_def mixf_def algebra_simps)


text \<open>
  Claim C4. With \<open>hard_weight = 0\<close> and \<open>soft_weight = 0\<close> the displace shader writes,
  at every coordinate \<open>uv\<close> and for every source, working and map field, the blend
  \<open>mix(workingField(uv), sourceField(uv), 1 - sourceMask)\<close>, where \<open>sourceMask\<close> is the
  fourth channel of the map read at \<open>uv\<close> without blur: the hard and the soft offset are
  both zero, so both displaced samples are the working field at \<open>uv\<close>.
\<close>

theorem C4_displace_zero_weights:
  "displace_main sourceField_t workingField_t mapField_t res 0 0 blur_size_u uv
     = mix4 (workingField_t uv) (sourceField_t uv) (1 - vw (mapField_t uv))"
proof -
  have z: "div2 (scale2 (scale2 v 0) 2) res = (0, 0)" for v
    by (cases v; cases res) (simp add: div2_def scale2_def)
  have f: "div2 (map2v floorf (adds2 (mul2 (0, 0) res) (1 / 2))) res = (0, 0)"
    by (cases res) (simp add: div2_def adds2_def mul2_def floorf_def)
  have u: "add2 uv (0, 0) = uv"
    by (cases uv) (simp add: add2_def)
  show ?thesis
    by (simp add: displace_main_def Let_def z f u mix4_same texture2D_def)
qed


section \<open>Properties of ShaderCalendar\<close>


lemma draw_fields [simp]:
  "gl (draw frag target s) = gl s"
  "time (draw frag target s) = time s"
  "currentImage (draw frag target s) = currentImage s"
  "sourceTexture (draw frag target s) = sourceTexture s"
  "width (draw frag target s) = width s"
  "height (draw frag target s) = height s"
  by (simp_all add: draw_def split: option.splits)

lemma draw_fbos_None [simp]: "(fbos (draw frag target s) k = None) = (fbos s k = None)"
  by (simp add: draw_def split: option.splits)

lemma fbos_ready_draw [simp]: "fbos_ready (draw frag target s) = fbos_ready s"
  by (simp add: fbos_ready_def)

lemma fbos_ready_updates [simp]:
  "fbos_ready (s\<lparr> time := t \<rparr>) = fbos_ready s"
  "fbos_ready (s\<lparr> animationId := a \<rparr>) = fbos_ready s"
  "fbos_ready (s\<lparr> currentDay := d \<rparr>) = fbos_ready s"
  "fbos_ready (s\<lparr> lastImageSrc := l \<rparr>) = fbos_ready s"
  by (simp_all add: fbos_ready_def)









lemma field_lastImageSrc_update [simp]:
  "workingField (s\<lparr> lastImageSrc := l \<rparr>) = workingField s"
  "sourceField (s\<lparr> lastImageSrc := l \<rparr>) = sourceField s"
  by (simp_all add: workingField_def sourceField_def)




text \<open>
  Claim C9. For every day, \<open>setDay\<close> assigns \<open>currentDay\<close> and nothing else: the working
  field, the source field, the time accumulator and every other field of the object are
  what they were, so \<open>setDay\<close> never resets the feedback accumulator.
\<close>

theorem C9_setDay_frame:
  "currentDay (setDay day s) = day
   \<and> workingField (setDay day s) = workingField s
   \<and> sourceField (setDay day s) = sourceField s
   \<and> time (setDay day s) = time s
   \<and> fbos (setDay day s) = fbos s
   \<and> screen (setDay day s) = screen s
   \<and> sourceTexture (setDay day s) = sourceTexture s
   \<and> currentImage (setDay day s) = currentImage s
   \<and> lastImageSrc (setDay day s) = lastImageSrc s
   \<and> seed (setDay day s) = seed s
   \<and> animationId (setDay day s) = animationId s
   \<and> width (setDay day s) = width s
   \<and> height (setDay day s) = height s
   \<and> gl (setDay day s) = gl s"
  by (simp add: setDay_def workingField_def sourceField_def)

section \<open>Properties of DementiaSound\<close>

lemma createPads_fields:
  "baseFrequencies (state_of (createPads params now rnd n i fs s)) = baseFrequencies s
   \<and> noiseNode (state_of (createPads params now rnd n i fs s)) = noiseNode s
   \<and> padFrequencies (state_of (createPads params now rnd n i fs s)) = padFrequencies s
   \<and> isPlaying (state_of (createPads params now rnd n i fs s)) = isPlaying s
   \<and> audioContext (state_of (createPads params now rnd n i fs s)) = audioContext s
   \<and> masterGain (state_of (createPads params now rnd n i fs s)) = masterGain s
   \<and> reverbNode (state_of (createPads params now rnd n i fs s)) = reverbNode s
   \<and> reverbGain (state_of (createPads params now rnd n i fs s)) = reverbGain s"
  by (induction params now rnd n i fs s rule: createPads.induct)
     (simp_all add: Let_def split: option.splits)

lemma createPads_nonempty:
  "masterGain s \<noteq> None \<Longrightarrow> reverbNode s \<noteq> None \<Longrightarrow> fs \<noteq> [] \<or> oscillators s \<noteq> [] \<Longrightarrow>
     oscillators (state_of (createPads params now rnd n i fs s)) \<noteq> []"
proof (induction fs arbitrary: s i)
  case Nil
  then show ?case by simp
next
  case (Cons freq rest)
  from Cons.prems(1,2) obtain mg rn where m: "masterGain s = Some mg" "reverbNode s = Some rn"
    by auto
  show ?case
    by (simp add: Let_def m) (rule Cons.IH, simp_all add: m)
qed

text \<open>
  With \<open>baseFrequencies\<close> undefined the loop stops in its first turn, after the two
  filter ramps of the first voice.
\<close>

lemma updateVoices_None:
  "updateVoices params now tt None (v # vs) =
     (Some TypeError,
      v\<lparr> v_filter := \<lparr> filter_frequency =
                         linearRampToValueAtTime (filterFrequency params) (now + tt) now
                           (filter_frequency (v_filter v)),
                       filter_Q =
                         linearRampToValueAtTime (filterQ params) (now + tt) now
                           (filter_Q (v_filter v)) \<rparr> \<rparr> # vs)"
  by (simp add: Let_def)

text \<open>With a populated \<open>baseFrequencies\<close> the loop runs to its end.\<close>

lemma updateVoices_populated:
  "bf \<noteq> [] \<Longrightarrow> fst (updateVoices params now tt (Some bf) vs) = None"
  by (induction vs) (auto simp: Let_def split: prod.splits)

lemma updateDay_returns_if_populated:
  assumes "isPlaying s" "day \<noteq> currentDay_snd s" "baseFrequencies s = Some bf" "bf \<noteq> []"
    "noiseNode s = None" "reverbGain s = Some rg"
  shows "\<exists>s'. updateDay day now s = Returns s'"
proof -
  obtain e vs where u: "updateVoices (getSoundParams day) now 1 (Some bf) (oscillators s) = (e, vs)"
    by (cases "updateVoices (getSoundParams day) now 1 (Some bf) (oscillators s)")
  with updateVoices_populated [OF assms(4), of "getSoundParams day" now 1 "oscillators s"]
  have "e = None" by simp
  with u assms show ?thesis by (simp add: updateDay_def Let_def)
qed

lemma sound_inv_modulate: "sound_inv s \<Longrightarrow> sound_inv (modulate now s)"
  by (auto simp: sound_inv_def modulate_def Let_def split: if_splits)

lemma sound_inv_setVolume: "sound_inv s \<Longrightarrow> sound_inv (setVolume v s)"
  by (auto simp: sound_inv_def setVolume_def split: if_splits option.splits)

lemma sound_inv_stop: "sound_inv s \<Longrightarrow> sound_inv (stop now s)"
  by (auto simp: sound_inv_def stop_def Let_def split: if_splits)

lemma sound_inv_init: "sound_inv s \<Longrightarrow> sound_inv (init env rnd s)"
  by (auto simp: sound_inv_def init_def createReverb_def Let_def
      split: if_splits context_env.splits)

lemma sound_inv_updateDay: "sound_inv s \<Longrightarrow> sound_inv (state_of (updateDay day now s))"
  by (cases "oscillators s")
     (auto simp: sound_inv_def updateDay_def Let_def split: if_splits option.splits prod.splits)

lemma sound_inv_start:
  assumes "sound_inv s"
  shows "sound_inv (state_of (start day now resume_ok rnd s))"
proof (cases "isPlaying s")
  case True
  then show ?thesis using sound_inv_updateDay [OF assms] by (simp add: start_def)
next
  case False
  show ?thesis
  proof (cases "audioContext s")
    case None
    with False assms show ?thesis by (simp add: start_def)
  next
    case (Some ctx)
    let ?s = "s\<lparr> audioContext := Some (ctx\<lparr> suspended := False \<rparr>), currentDay_snd := day,
                   isPlaying := True \<rparr>"
    let ?r = "createPads (getSoundParams day) now rnd (length (padFrequencies s)) 0
                (padFrequencies s) ?s"
    have f: "baseFrequencies (state_of ?r) = None" "noiseNode (state_of ?r) = None"
      "padFrequencies (state_of ?r) \<noteq> []" "isPlaying (state_of ?r)"
      "audioContext (state_of ?r) \<noteq> None" "masterGain (state_of ?r) = masterGain s"
      "reverbNode (state_of ?r) = reverbNode s" "reverbGain (state_of ?r) = reverbGain s"
      using assms by (simp_all add: createPads_fields sound_inv_def)
    have n: "oscillators (state_of ?r) \<noteq> []" if "masterGain s \<noteq> None"
      using assms that by (intro createPads_nonempty) (auto simp: sound_inv_def split: if_splits)
    have i: "sound_inv (state_of ?r)"
      using assms f n by (auto simp: sound_inv_def split: if_splits)
    show ?thesis
    proof (cases "suspended ctx \<and> \<not> resume_ok")
      case True
      with False Some assms show ?thesis by (simp add: start_def)
    next
      case False
      with \<open>\<not> isPlaying s\<close> Some i sound_inv_modulate [of "state_of ?r" now] show ?thesis
        by (auto simp: start_def Let_def split: outcome.splits)
    qed
  qed
qed

lemma sound_inv_toggle: "sound_inv s \<Longrightarrow> sound_inv (state_of (toggle day now resume_ok rnd s))"
  by (simp add: toggle_def sound_inv_stop sound_inv_start)

lemma sound_reachable_inv: "sound_reachable s \<Longrightarrow> sound_inv s"
proof (induction rule: sound_reachable.induct)
  case sr_constructor
  show ?case by (simp add: sound_inv_def sound_constructor_def)
qed (simp_all add: sound_inv_init sound_inv_start sound_inv_modulate sound_inv_updateDay
       sound_inv_stop sound_inv_toggle sound_inv_setVolume)

text \<open>
  Claim C8. The constructor leaves \<open>baseFrequencies\<close> undefined and no method assigns
  it, so it is undefined in every state the object can be in. \<open>updateDay\<close>, called while
  playing with a day other than \<open>currentDay\<close>, therefore raises a \<open>TypeError\<close> and does
  not complete its ramp updates: no voice gets its gain, reverb, vibrato-speed or
  vibrato-depth ramp, every voice after the first is left as it was, and the ramp on the
  shared reverb gain is not scheduled.
\<close>

theorem C8_updateDay_raises:
  assumes "sound_reachable s" and "isPlaying s" and "day \<noteq> currentDay_snd s"
  shows "baseFrequencies sound_constructor = None \<and> baseFrequencies s = None
    \<and> (\<exists>s'. updateDay day now s = Throws TypeError s'
          \<and> reverbGain s' = reverbGain s
          \<and> map v_gain (oscillators s') = map v_gain (oscillators s)
          \<and> map v_reverbGain (oscillators s') = map v_reverbGain (oscillators s)
          \<and> map v_lfo (oscillators s') = map v_lfo (oscillators s)
          \<and> map v_lfoGain (oscillators s') = map v_lfoGain (oscillators s)
          \<and> drop 1 (oscillators s') = drop 1 (oscillators s))"
proof -
  have i: "sound_inv s" using assms(1) by (rule sound_reachable_inv)
  then have b: "baseFrequencies s = None" and n: "noiseNode s = None"
    by (simp_all add: sound_inv_def)
  have c: "baseFrequencies sound_constructor = None" by (simp add: sound_constructor_def)
  show ?thesis
  proof (cases "oscillators s")
    case Nil
    with i assms(2) have "reverbGain s = None" by (auto simp: sound_inv_def split: if_splits)
    with Nil b n c assms(2,3) show ?thesis by (simp add: updateDay_def Let_def)
  next
    case (Cons v vs)
    with b c assms(2,3) show ?thesis by (simp add: updateDay_def Let_def)
  qed
qed

text \<open>
  The theorem at the engine that was initialised, started at day 1 at time 0 and asked
  for day 31 at time 10.
\<close>

theorem C8_updateDay_raises_witness:
  "sound_reachable
     (state_of (start 1 0 True (\<lambda>i. 0) (init (Running 44100) (\<lambda>c i. 0) sound_constructor)))
   \<and> isPlaying
     (state_of (start 1 0 True (\<lambda>i. 0) (init (Running 44100) (\<lambda>c i. 0) sound_constructor)))
   \<and> 31 \<noteq> currentDay_snd
     (state_of (start 1 0 True (\<lambda>i. 0) (init (Running 44100) (\<lambda>c i. 0) sound_constructor)))
   \<and> (\<exists>s'. updateDay 31 10
              (state_of (start 1 0 True (\<lambda>i. 0)
                 (init (Running 44100) (\<lambda>c i. 0) sound_constructor)))
            = Throws TypeError s')"
proof -
  let ?s = "state_of (start 1 0 True (\<lambda>i. 0) (init (Running 44100) (\<lambda>c i. 0) sound_constructor))"
  have r: "sound_reachable ?s" by (intro sr_start sr_init sr_constructor)
  have p: "isPlaying ?s"
    by (simp add: start_def init_def sound_constructor_def createReverb_def Let_def modulate_def)
  have d: "31 \<noteq> currentDay_snd ?s"
    by (simp add: start_def init_def sound_constructor_def createReverb_def Let_def modulate_def)
  from C8_updateDay_raises [OF r p d, of 10] r p d show ?thesis by blast
qed

text \<open>
  Claim C7, on the code: after \<open>init\<close>, \<open>start(1)\<close> at time 0 and \<open>updateDay(31)\<close> at
  time 10, the call has thrown, and half way through the one-second window only the
  first of the three voices has a filter frequency strictly between 4000 and 12000; the
  second and the third are still at 12000, with no ramp scheduled.
\<close>

theorem C7_filter_ramp_only_first_voice:
  "\<exists>s2. updateDay 31 10
           (state_of (start 1 0 True (\<lambda>i. 0) (init (Running 44100) (\<lambda>c i. 0) sound_constructor)))
         = Throws TypeError s2
       \<and> length (oscillators s2) = 3
       \<and> 4000 < valueAtTime (filter_frequency (v_filter (oscillators s2 ! 0))) (10 + 1 / 2)
       \<and> valueAtTime (filter_frequency (v_filter (oscillators s2 ! 0))) (10 + 1 / 2) < 12000
       \<and> param_events (filter_frequency (v_filter (oscillators s2 ! 1))) = []
       \<and> valueAtTime (filter_frequency (v_filter (oscillators s2 ! 1))) (10 + 1 / 2) = 12000
       \<and> param_events (filter_frequency (v_filter (oscillators s2 ! 2))) = []
       \<and> valueAtTime (filter_frequency (v_filter (oscillators s2 ! 2))) (10 + 1 / 2) = 12000"
  by (simp add: updateDay_def start_def init_def sound_constructor_def createReverb_def Let_def
      modulate_def getSoundParams_def eases_at_day_1 eases_at_day_31 newParam_def
      linearRampToValueAtTime_def valueAtTime_def)

text \<open>
  Claim C10. For every real \<open>v\<close>, \<open>setVolume v\<close> on an initialised engine (one with a
  master gain) sets the master gain to \<open>min(1, max(0, v))\<close>, a value in \<open>[0, 1]\<close>; on
  an engine without a master gain it changes nothing.
\<close>

theorem C10_setVolume_clamps:
  "(masterGain s \<noteq> None \<longrightarrow>
      map_option param_value (masterGain (setVolume v s)) = Some (min 1 (max 0 v))
      \<and> 0 \<le> min 1 (max 0 v) \<and> min 1 (max 0 v) \<le> 1)
   \<and> (masterGain s = None \<longrightarrow> setVolume v s = s)"
  by (auto simp: setVolume_def)

text \<open>The theorem at volume 1.5, on an initialised engine and on a fresh one.\<close>

theorem C10_setVolume_clamps_witness:
  "masterGain (init (Running 44100) (\<lambda>c i. 0) sound_constructor) \<noteq> None
   \<and> map_option param_value
        (masterGain (setVolume 1.5 (init (Running 44100) (\<lambda>c i. 0) sound_constructor))) = Some 1
   \<and> masterGain sound_constructor = None
   \<and> setVolume 1.5 sound_constructor = sound_constructor"
proof -
  have a: "masterGain (init (Running 44100) (\<lambda>c i. 0) sound_constructor) \<noteq> None"
    by (simp add: init_def sound_constructor_def createReverb_def Let_def)
  have b: "masterGain sound_constructor = None" by (simp add: sound_constructor_def)
  from C10_setVolume_clamps [of "init (Running 44100) (\<lambda>c i. 0) sound_constructor" "1.5"]
       C10_setVolume_clamps [of sound_constructor "1.5"] a b
  show ?thesis by simp
qed

end
